theory Spec2Isabelle
  imports Main "HOL-Library.Sublist" "HOL-Library.Word"
begin

section \<open>JavaScript values used by the hook\<close>

text \<open>
  The hook \<^verbatim>\<open>useCandyMachineV3\<close> (src/hooks/useCandyMachineV3.tsx) is embedded
  function by function. JavaScript objects used as dictionaries are finite maps (no
  prototype lookups: candy-guard labels are at most six characters, shorter than every
  property name of \<^verbatim>\<open>Object.prototype\<close>), \<^verbatim>\<open>undefined\<close> and \<^verbatim>\<open>null\<close> are
  \<open>None\<close>, a \<^verbatim>\<open>Uint8Array\<close> is a list of bytes.
\<close>

type_synonym bytes = "8 word list"

text \<open>
  A thrown value. The catch handler of \<^verbatim>\<open>mint\<close> reads the properties \<^verbatim>\<open>msg\<close>,
  \<^verbatim>\<open>message\<close> and \<^verbatim>\<open>code\<close> of it, each possibly absent.
\<close>

record js_error =
  msg :: "string option"
  message :: "string option"
  code :: "int option"

definition Error :: "string \<Rightarrow> js_error" where
  \<comment> \<open>\<^verbatim>\<open>new Error(m)\<close>: only \<^verbatim>\<open>message\<close> is set.\<close>
  "Error m = \<lparr>msg = None, message = Some m, code = None\<rparr>"

definition TypeError :: "string \<Rightarrow> js_error" where
  \<comment> \<open>The error of a property read on \<^verbatim>\<open>undefined\<close>.\<close>
  "TypeError m = \<lparr>msg = None, message = Some m, code = None\<rparr>"

definition truthy_str :: "string option \<Rightarrow> bool" where
  \<comment> \<open>A string property is truthy when it is present and not the empty string.\<close>
  "truthy_str s = (case s of None \<Rightarrow> False | Some t \<Rightarrow> t \<noteq> [])"

definition truthy_num :: "int \<Rightarrow> bool" where
  \<comment> \<open>A number is truthy when it is not zero; \<open>-1\<close> is truthy.\<close>
  "truthy_num n = (n \<noteq> 0)"

definition truthy_array :: "'a list \<Rightarrow> bool" where
  \<comment> \<open>Every array is an object and so truthy, the empty array included.\<close>
  "truthy_array xs = True"

fun indexOf :: "string \<Rightarrow> string \<Rightarrow> int" where
  \<comment> \<open>\<^verbatim>\<open>String.prototype.indexOf\<close>: the first position of the pattern, or \<open>-1\<close>.\<close>
  "indexOf [] pat = (if pat = [] then 0 else - 1)"
| "indexOf (c # cs) pat =
     (if prefix pat (c # cs) then 0
      else (let r = indexOf cs pat in if r < 0 then - 1 else r + 1))"

section \<open>The catch handler of mint: the error classifier (lines 267-286)\<close>

definition catch_message :: "js_error \<Rightarrow> string" where
  "catch_message error =
     (let message0 = (if truthy_str (msg error) then (case msg error of Some m \<Rightarrow> m | None \<Rightarrow> [])
                      else ''Minting failed! Please try again!'')
      in if \<not> truthy_str (msg error) then
           (case message error of
              None \<Rightarrow> ''Transaction Timeout! Please try again.''
            | Some m \<Rightarrow>
                if m = [] then ''Transaction Timeout! Please try again.''
                else if truthy_num (indexOf m ''0x138'') then message0
                else if truthy_num (indexOf m ''0x137'') then ''SOLD OUT!''
                else if truthy_num (indexOf m ''0x135'')
                  then ''Insufficient funds to mint. Please fund your wallet.''
                else message0)
         else
           (if code error = Some 311 then ''SOLD OUT!''
            else if code error = Some 312 then ''Minting period hasn't started yet.''
            else message0))"

section \<open>The allow-list index: proofMemo (lines 83-123)\<close>

text \<open>
  \<^verbatim>\<open>getMerkleTree\<close> and \<^verbatim>\<open>getMerkleProof\<close> come from the Metaplex SDK and
  \<^verbatim>\<open>getRoot\<close> from merkletreejs; none is part of the repository, so the three are
  parameters of the model.
\<close>

record 't merkle_lib =
  getMerkleTree :: "string list \<Rightarrow> 't"
  getMerkleProof :: "string list \<Rightarrow> string \<Rightarrow> bytes list"
  getRoot :: "'t \<Rightarrow> bytes"

record 't merkle =
  tree :: 't
  proof' :: "bytes list"

record 't proof_memo =
  merkles :: "(string \<rightharpoonup> 't merkle) option"
  verifyProof :: "bytes \<Rightarrow> string option \<Rightarrow> bool option"

definition build_merkles ::
  "'t merkle_lib \<Rightarrow> (string \<times> string list) list \<Rightarrow> string \<Rightarrow> (string \<rightharpoonup> 't merkle)" where
  \<comment> \<open>The \<^verbatim>\<open>reduce\<close> of lines 99-108: a later entry of a label replaces an earlier one.\<close>
  "build_merkles lib allowLists publicKey =
     fold (\<lambda>(groupLabel, lst) prev.
             prev(groupLabel \<mapsto> \<lparr>tree = getMerkleTree lib lst,
                                  proof' = getMerkleProof lib lst publicKey\<rparr>))
          allowLists Map.empty"

definition verifyProof_merkles ::
  "'t merkle_lib \<Rightarrow> (string \<rightharpoonup> 't merkle) \<Rightarrow> bytes \<Rightarrow> string option \<Rightarrow> bool option" where
  \<comment> \<open>Lines 109-118; the result \<open>None\<close> is the \<^verbatim>\<open>undefined\<close> of the bare \<^verbatim>\<open>return\<close>.\<close>
  "verifyProof_merkles lib ms merkleRoot label_arg =
     (let label = (case label_arg of None \<Rightarrow> ''default'' | Some l \<Rightarrow> l)
      in case ms label of
           None \<Rightarrow> None
         | Some merkle \<Rightarrow>
             (let verifiedProof = truthy_array (proof' merkle);
                  compareRoot = (getRoot lib (tree merkle) = merkleRoot)
              in Some (verifiedProof \<and> compareRoot)))"

definition no_allowLists :: "(string \<times> string list) list option \<Rightarrow> bool" where
  \<comment> \<open>\<^verbatim>\<open>!candyMachineOpts.allowLists?.length\<close>: the option is absent or an empty array.\<close>
  "no_allowLists allowLists = (case allowLists of None \<Rightarrow> True | Some als \<Rightarrow> length als = 0)"

definition proofMemo ::
  "'t merkle_lib \<Rightarrow> (string \<times> string list) list option \<Rightarrow> string option \<Rightarrow> 't proof_memo" where
  "proofMemo lib allowLists publicKey =
     (if no_allowLists allowLists
      then \<lparr>merkles = None, verifyProof = (\<lambda>merkleRoot label. Some True)\<rparr>
      else (case publicKey of
              None \<Rightarrow> \<lparr>merkles = None, verifyProof = (\<lambda>merkleRoot label. Some False)\<rparr>
            | Some pk \<Rightarrow>
                (let ms = build_merkles lib (case allowLists of None \<Rightarrow> [] | Some als \<Rightarrow> als) pk
                 in \<lparr>merkles = Some ms, verifyProof = verifyProof_merkles lib ms\<rparr>)))"

section \<open>Data of a mint call\<close>

text \<open>
  Modelled from the spec: the type declarations of \<^verbatim>\<open>./types\<close> (GuardGroup,
  NftPaymentMintSettings) are not among the sources. A guard group is modelled with the two
  guards the orchestrator and its properties mention: the allow-list guard (its merkle
  root) and the mint-limit guard with its mutable local counter. Each group owns its
  counter object (no two groups share one). The payload of an NFT guard setting is an
  opaque string.
\<close>

record MintCounter =
  count :: int

record MintLimitLogics =
  mintCounter :: "MintCounter option"

record GuardGroup =
  allowList :: "bytes option"
  mintLimit :: "MintLimitLogics option"

record NftPaymentMintSettings =
  burn :: "string option"
  payment :: "string option"
  gate :: "string option"

record mint_opts =
  groupLabel :: "string option"
  nftGuards :: "NftPaymentMintSettings list option"

record CandyMachine =
  authorityAddress :: string

type_synonym nft = string

text \<open>The arguments handed to the two builder functions of the SDK.\<close>

record route_input =
  route_candyMachine :: CandyMachine
  route_guard :: string
  route_group :: "string option"
  settings_path :: string
  settings_merkleProof :: "bytes list"

record mint_input =
  mint_candyMachine :: CandyMachine
  collectionUpdateAuthority :: string
  mint_group :: "string option"
  guards_nftBurn :: "string option"
  guards_nftPayment :: "string option"
  guards_nftGate :: "string option"
  guards_allowList :: "bytes list option"

datatype builder_input = RouteInput route_input | MintInput mint_input

text \<open>
  The three signer shapes the hook probes for (\<^verbatim>\<open>signAllTransactions\<close>,
  \<^verbatim>\<open>secretKey\<close>, \<^verbatim>\<open>_signer\<close>), each with its public key, and any other shape.
\<close>

datatype signer =
  IdentitySigner string | KeypairSigner string | DelegatedSigner string | OtherSigner string

record mint_context =
  mintSigner :: string
  tokenAddress :: string

record TransactionBuilder =
  input :: builder_input
  getSigners :: "signer list"
  getContext :: "mint_context option"

record BlockhashWithExpiryBlockHeight =
  blockhash :: string
  lastValidBlockHeight :: nat

record Transaction =
  instructions :: TransactionBuilder
  feePayer :: "string option"
  recentBlockhash :: "string option"
  signatures :: "string list"

datatype commitment = Processed | Finalized

record mint_output =
  out_signature :: string
  out_context :: "mint_context option"

text \<open>
  Everything outside the hook: the SDK's builders, the RPC client, the wallet and the
  NFT lookup. Each call either fails with an error or gives its result. A mint builder
  creates a fresh mint signer, so its result depends on which call of the loop it is; a
  builder's signers and context are what the SDK attaches to it.
\<close>

record env =
  callCandyGuardRouteBuilder :: "route_input \<Rightarrow> js_error + signer list"
  mintFromCandyMachineBuilder :: "nat \<Rightarrow> mint_input \<Rightarrow> js_error + (signer list \<times> mint_context)"
  getLatestBlockhash :: "js_error + BlockhashWithExpiryBlockHeight"
  toTransaction :: "TransactionBuilder \<Rightarrow> BlockhashWithExpiryBlockHeight \<Rightarrow> Transaction"
  signAllTransactions :: "string \<Rightarrow> Transaction list \<Rightarrow> js_error option"
  sendAndConfirmTransaction :: "Transaction \<Rightarrow> commitment \<Rightarrow> js_error + string"
  findByMint :: "mint_context \<Rightarrow> js_error + nft"

text \<open>
  The observable steps of a call, in the order they are started. The mint submissions,
  and after them the lookups, run concurrently; each group is listed in index order.
\<close>

datatype event =
  SetStatusMinting bool
  | GetLatestBlockhash
  | SignAll string "Transaction list"
  | SendAndConfirm Transaction commitment
  | FindByMint mint_context
  | ConsoleError js_error
  | Refresh

record 't hook =
  guardsAndGroups :: "string \<rightharpoonup> GuardGroup"
  candyMachine :: "CandyMachine option"
  hook_proofMemo :: "'t proof_memo"
  wallet_publicKey :: "string option"

text \<open>How a block of statements ends; for the async function, \<open>Return\<close> resolves the
  promise and \<open>Throw\<close> rejects it.\<close>

datatype 'a completion = Normal | Throw js_error | Return 'a

record mint_result =
  outcome :: "nft list completion"
  trace :: "event list"
  groups_after :: "string \<rightharpoonup> GuardGroup"

section \<open>mint: validation and plan construction (lines 158-207)\<close>

definition group_key :: "mint_opts \<Rightarrow> string" where
  \<comment> \<open>\<^verbatim>\<open>opts.groupLabel || "default"\<close>\<close>
  "group_key opts =
     (case groupLabel opts of None \<Rightarrow> ''default'' | Some l \<Rightarrow> if l = [] then ''default'' else l)"

definition allowList_of :: "'t proof_memo \<Rightarrow> mint_opts \<Rightarrow> js_error + bytes list option" where
  \<comment> \<open>Lines 161-164; \<open>Some p\<close> is the object \<^verbatim>\<open>{proof: p}\<close>, \<open>None\<close> any falsy value.\<close>
  "allowList_of pm opts =
     (case groupLabel opts of
        None \<Rightarrow> Inr None
      | Some l \<Rightarrow>
          if l = [] then Inr None
          else (case merkles pm of
                  None \<Rightarrow> Inl (TypeError ''Cannot read properties of undefined'')
                | Some ms \<Rightarrow>
                    (case ms l of None \<Rightarrow> Inr None | Some merkle \<Rightarrow> Inr (Some (proof' merkle)))))"

definition merkle_proof_at :: "'t proof_memo \<Rightarrow> string \<Rightarrow> js_error + bytes list" where
  \<comment> \<open>\<^verbatim>\<open>proofMemo.merkles[key].proof\<close>\<close>
  "merkle_proof_at pm key =
     (case merkles pm of
        None \<Rightarrow> Inl (TypeError ''Cannot read properties of undefined'')
      | Some ms \<Rightarrow>
          (case ms key of
             None \<Rightarrow> Inl (TypeError ''Cannot read properties of undefined'')
           | Some merkle \<Rightarrow> Inr (proof' merkle)))"

definition route_input_for :: "CandyMachine \<Rightarrow> mint_opts \<Rightarrow> bytes list \<Rightarrow> route_input" where
  \<comment> \<open>The argument of \<^verbatim>\<open>callCandyGuardRouteBuilder\<close>, lines 181-190.\<close>
  "route_input_for cm opts p =
     \<lparr>route_candyMachine = cm, route_guard = ''allowList'', route_group = groupLabel opts,
      settings_path = ''proof'', settings_merkleProof = p\<rparr>"

definition route_builders ::
  "env \<Rightarrow> CandyMachine \<Rightarrow> 't proof_memo \<Rightarrow> mint_opts \<Rightarrow> bytes list option
     \<Rightarrow> js_error + TransactionBuilder list" where
  \<comment> \<open>Lines 176-192.\<close>
  "route_builders e cm pm opts allowList_arg =
     (case allowList_arg of
        None \<Rightarrow> Inr []
      | Some al \<Rightarrow>
          (case merkle_proof_at pm (group_key opts) of
             Inl err \<Rightarrow> Inl err
           | Inr p \<Rightarrow>
               if length p = 0 then Inl (Error ''User is not in allowed list'')
               else (case callCandyGuardRouteBuilder e (route_input_for cm opts p) of
                       Inl err \<Rightarrow> Inl err
                     | Inr ss \<Rightarrow>
                         Inr [\<lparr>input = RouteInput (route_input_for cm opts p),
                               getSigners = ss, getContext = None\<rparr>])))"

definition nftGuard_at ::
  "mint_opts \<Rightarrow> nat \<Rightarrow> (NftPaymentMintSettings \<Rightarrow> string option) \<Rightarrow> string option" where
  \<comment> \<open>\<^verbatim>\<open>opts.nftGuards && opts.nftGuards[index]?.field\<close>\<close>
  "nftGuard_at opts index field =
     (case nftGuards opts of
        None \<Rightarrow> None
      | Some gs \<Rightarrow> if index < length gs then field (gs ! index) else None)"

definition mint_input_at ::
  "CandyMachine \<Rightarrow> mint_opts \<Rightarrow> bytes list option \<Rightarrow> nat \<Rightarrow> mint_input" where
  "mint_input_at cm opts allowList_arg index =
     \<lparr>mint_candyMachine = cm, collectionUpdateAuthority = authorityAddress cm,
      mint_group = groupLabel opts,
      guards_nftBurn = nftGuard_at opts index burn,
      guards_nftPayment = nftGuard_at opts index payment,
      guards_nftGate = nftGuard_at opts index gate,
      guards_allowList = allowList_arg\<rparr>"

text \<open>
  The loop of lines 193-207. The requested quantity is a JavaScript number; the model
  takes the integers (a negative one runs the loop zero times).
\<close>

function mint_builders ::
  "env \<Rightarrow> CandyMachine \<Rightarrow> mint_opts \<Rightarrow> bytes list option \<Rightarrow> int \<Rightarrow> nat
     \<Rightarrow> TransactionBuilder list \<Rightarrow> js_error + TransactionBuilder list" where
  "mint_builders e cm opts allowList_arg quantityString index transactionBuilders =
     (if int index < quantityString then
        (case mintFromCandyMachineBuilder e index (mint_input_at cm opts allowList_arg index) of
           Inl err \<Rightarrow> Inl err
         | Inr (ss, ctx) \<Rightarrow>
             mint_builders e cm opts allowList_arg quantityString (Suc index)
               (transactionBuilders @
                  [\<lparr>input = MintInput (mint_input_at cm opts allowList_arg index),
                    getSigners = ss, getContext = Some ctx\<rparr>]))
      else Inr transactionBuilders)"
  by pat_completeness auto
termination
  by (relation "measure (\<lambda>(e, cm, opts, al, q, index, bs). nat (q - int index))") auto

declare mint_builders.simps [simp del]

definition build_transactionBuilders ::
  "env \<Rightarrow> CandyMachine \<Rightarrow> 't proof_memo \<Rightarrow> mint_opts \<Rightarrow> bytes list option \<Rightarrow> int
     \<Rightarrow> js_error + TransactionBuilder list" where
  "build_transactionBuilders e cm pm opts allowList_arg quantityString =
     (case route_builders e cm pm opts allowList_arg of
        Inl err \<Rightarrow> Inl err
      | Inr transactionBuilders \<Rightarrow>
          mint_builders e cm opts allowList_arg quantityString 0 transactionBuilders)"

section \<open>mint: blockhash, fee payer and signatures (lines 208-228)\<close>

definition partialSign :: "Transaction \<Rightarrow> string \<Rightarrow> Transaction" where
  "partialSign tx pk = tx\<lparr>signatures := signatures tx @ [pk]\<rparr>"

definition put_signer :: "string \<Rightarrow> string list \<Rightarrow> string list" where
  \<comment> \<open>\<^verbatim>\<open>signers[key] = s\<close>: the keys of the dictionary, in insertion order.\<close>
  "put_signer pk signers = (if pk \<in> set signers then signers else signers @ [pk])"

fun apply_signer :: "signer \<Rightarrow> Transaction \<times> string list \<Rightarrow> Transaction \<times> string list" where
  "apply_signer (IdentitySigner pk) (tx, signers) = (tx, put_signer pk signers)"
| "apply_signer (KeypairSigner pk) (tx, signers) = (partialSign tx pk, signers)"
| "apply_signer (DelegatedSigner pk) (tx, signers) = (partialSign tx pk, signers)"
| "apply_signer (OtherSigner pk) (tx, signers) = (tx, signers)"

fun assign_all ::
  "string option \<Rightarrow> BlockhashWithExpiryBlockHeight \<Rightarrow> Transaction list
     \<Rightarrow> TransactionBuilder list \<Rightarrow> string list \<Rightarrow> Transaction list \<times> string list" where
  \<comment> \<open>The \<^verbatim>\<open>forEach\<close> of lines 214-223; the two arrays have the same length.\<close>
  "assign_all pk bh [] bs signers = ([], signers)"
| "assign_all pk bh (tx # txs) bs signers =
     (let tx1 = tx\<lparr>feePayer := pk, recentBlockhash := Some (blockhash bh)\<rparr>;
          (tx2, signers1) = fold apply_signer (case bs of [] \<Rightarrow> [] | b # bs' \<Rightarrow> getSigners b)
                                 (tx1, signers);
          (txs2, signers2) = assign_all pk bh txs (tl bs) signers1
      in (tx2 # txs2, signers2))"

fun sign_all :: "env \<Rightarrow> string list \<Rightarrow> Transaction list \<Rightarrow> event list \<times> js_error option" where
  \<comment> \<open>Lines 226-228: one batch signature request per collected signer, all transactions each.\<close>
  "sign_all e [] txs = ([], None)"
| "sign_all e (s # ss) txs =
     (case signAllTransactions e s txs of
        Some err \<Rightarrow> ([SignAll s txs], Some err)
      | None \<Rightarrow> (let (tr, r) = sign_all e ss txs in (SignAll s txs # tr, r)))"

section \<open>mint: submission and reconciliation (lines 229-261)\<close>

definition submit_route ::
  "env \<Rightarrow> bytes list option \<Rightarrow> Transaction list \<Rightarrow> TransactionBuilder list
     \<Rightarrow> event list \<times> (js_error + Transaction list \<times> TransactionBuilder list)" where
  \<comment> \<open>Lines 229-235: both arrays are shifted, the first transaction is sent and awaited.\<close>
  "submit_route e allowList_arg signedTransactions transactionBuilders =
     (case allowList_arg of
        None \<Rightarrow> ([], Inr (signedTransactions, transactionBuilders))
      | Some al \<Rightarrow>
          (case signedTransactions of
             [] \<Rightarrow> ([], Inl (TypeError ''Cannot read properties of undefined''))
           | allowListCallGuardRouteTx # rest \<Rightarrow>
               (case sendAndConfirmTransaction e allowListCallGuardRouteTx Processed of
                  Inl err \<Rightarrow> ([SendAndConfirm allowListCallGuardRouteTx Processed], Inl err)
                | Inr sg \<Rightarrow>
                    ([SendAndConfirm allowListCallGuardRouteTx Processed],
                     Inr (rest, tl transactionBuilders)))))"

fun promise_all :: "(js_error + 'a) list \<Rightarrow> js_error + 'a list" where
  \<comment> \<open>\<^verbatim>\<open>Promise.all\<close>: all results, or a rejection. The promises settle in index order
      here, so the rejection is the one of the lowest index.\<close>
  "promise_all [] = Inr []"
| "promise_all (Inl err # rs) = Inl err"
| "promise_all (Inr x # rs) =
     (case promise_all rs of Inl err \<Rightarrow> Inl err | Inr xs \<Rightarrow> Inr (x # xs))"

fun send_mints ::
  "env \<Rightarrow> Transaction list \<Rightarrow> TransactionBuilder list \<Rightarrow> (js_error + mint_output) list" where
  \<comment> \<open>The \<^verbatim>\<open>map\<close> of lines 237-245: transaction \<open>i\<close> with the context of builder \<open>i\<close>.\<close>
  "send_mints e [] bs = []"
| "send_mints e (tx # txs) bs =
     (case sendAndConfirmTransaction e tx Finalized of
        Inl err \<Rightarrow> Inl err
      | Inr sg \<Rightarrow>
          (case bs of
             [] \<Rightarrow> Inl (TypeError ''Cannot read properties of undefined'')
           | b # bs' \<Rightarrow> Inr \<lparr>out_signature = sg, out_context = getContext b\<rparr>))
     # send_mints e txs (tl bs)"

definition submit_mints ::
  "env \<Rightarrow> Transaction list \<Rightarrow> TransactionBuilder list
     \<Rightarrow> event list \<times> (js_error + mint_output list)" where
  \<comment> \<open>Every mint transaction is sent before any result is awaited.\<close>
  "submit_mints e signedTransactions transactionBuilders =
     (map (\<lambda>tx. SendAndConfirm tx Finalized) signedTransactions,
      promise_all (send_mints e signedTransactions transactionBuilders))"

definition catch_null :: "js_error + 'a \<Rightarrow> 'a option" where
  \<comment> \<open>\<^verbatim>\<open>.catch((e) => null)\<close>\<close>
  "catch_null r = (case r of Inl err \<Rightarrow> None | Inr x \<Rightarrow> Some x)"

fun lookups :: "env \<Rightarrow> mint_output list \<Rightarrow> event list \<times> (js_error + nft option list)" where
  \<comment> \<open>Lines 247-257: a failed lookup gives \<^verbatim>\<open>null\<close>; a context without a mint signer
      throws while the array is mapped.\<close>
  "lookups e [] = ([], Inr [])"
| "lookups e (out # outs) =
     (case out_context out of
        None \<Rightarrow> ([], Inl (TypeError ''Cannot read properties of undefined''))
      | Some ctx \<Rightarrow>
          (let (tr, r) = lookups e outs
           in (FindByMint ctx # tr,
               case r of Inl err \<Rightarrow> Inl err
                       | Inr nfts \<Rightarrow> Inr (catch_null (findByMint e ctx) # nfts))))"

definition bump_group :: "nat \<Rightarrow> GuardGroup \<Rightarrow> GuardGroup" where
  \<comment> \<open>Lines 259-260, for one group.\<close>
  "bump_group n guards =
     (case mintLimit guards of
        None \<Rightarrow> guards
      | Some ml \<Rightarrow>
          (case mintCounter ml of
             None \<Rightarrow> guards
           | Some mc \<Rightarrow>
               guards\<lparr>mintLimit := Some (ml\<lparr>mintCounter := Some (mc\<lparr>count := count mc + int n\<rparr>)\<rparr>)\<rparr>))"

definition bump_counters :: "(string \<rightharpoonup> GuardGroup) \<Rightarrow> nat \<Rightarrow> (string \<rightharpoonup> GuardGroup)" where
  \<comment> \<open>\<^verbatim>\<open>Object.values(guardsAndGroups).forEach(...)\<close>\<close>
  "bump_counters groups n = (\<lambda>label. map_option (bump_group n) (groups label))"

section \<open>mint: the try block, the handler and the cleanup (lines 166-291)\<close>

definition mint_plan ::
  "env \<Rightarrow> 't hook \<Rightarrow> CandyMachine \<Rightarrow> int \<Rightarrow> mint_opts \<Rightarrow> bytes list option
     \<Rightarrow> event list \<times> (js_error + Transaction list \<times> TransactionBuilder list)" where
  \<comment> \<open>Lines 175-228: the builders, the blockhash, the transactions and their signatures.\<close>
  "mint_plan e st cm quantityString opts allowList_arg =
     (case build_transactionBuilders e cm (hook_proofMemo st) opts allowList_arg quantityString of
        Inl err \<Rightarrow> ([], Inl err)
      | Inr transactionBuilders \<Rightarrow>
          (case getLatestBlockhash e of
             Inl err \<Rightarrow> ([GetLatestBlockhash], Inl err)
           | Inr bh \<Rightarrow>
               (let (transactions, signers) =
                      assign_all (wallet_publicKey st) bh
                        (map (\<lambda>t. toTransaction e t bh) transactionBuilders)
                        transactionBuilders [];
                    (tr, r) = sign_all e signers transactions
                in case r of
                     Some err \<Rightarrow> (GetLatestBlockhash # tr, Inl err)
                   | None \<Rightarrow> (GetLatestBlockhash # tr, Inr (transactions, transactionBuilders)))))"

definition mint_submit ::
  "env \<Rightarrow> bytes list option \<Rightarrow> Transaction list \<Rightarrow> TransactionBuilder list
     \<Rightarrow> event list \<times> (js_error + nft option list)" where
  \<comment> \<open>Lines 229-257.\<close>
  "mint_submit e allowList_arg signedTransactions transactionBuilders =
     (case submit_route e allowList_arg signedTransactions transactionBuilders of
        (tr1, Inl err) \<Rightarrow> (tr1, Inl err)
      | (tr1, Inr (txs, bs)) \<Rightarrow>
          (case submit_mints e txs bs of
             (tr2, Inl err) \<Rightarrow> (tr1 @ tr2, Inl err)
           | (tr2, Inr outs) \<Rightarrow>
               (case lookups e outs of
                  (tr3, Inl err) \<Rightarrow> (tr1 @ tr2 @ tr3, Inl err)
                | (tr3, Inr nfts) \<Rightarrow> (tr1 @ tr2 @ tr3, Inr nfts))))"

definition mint_try ::
  "env \<Rightarrow> 't hook \<Rightarrow> int \<Rightarrow> mint_opts \<Rightarrow> bytes list option
     \<Rightarrow> event list \<times> (js_error + nft option list \<times> (string \<rightharpoonup> GuardGroup))" where
  \<comment> \<open>The try block, lines 168-261. It gives the array \<^verbatim>\<open>nfts\<close> and the groups with
      their counters updated; when it throws, \<^verbatim>\<open>nfts\<close> is still empty and no counter
      has changed.\<close>
  "mint_try e st quantityString opts allowList_arg =
     (case candyMachine st of
        None \<Rightarrow> ([], Inl (Error ''Candy Machine not loaded yet!''))
      | Some cm \<Rightarrow>
          (case mint_plan e st cm quantityString opts allowList_arg of
             (tr1, Inl err) \<Rightarrow> (SetStatusMinting True # tr1, Inl err)
           | (tr1, Inr (txs, bs)) \<Rightarrow>
               (case mint_submit e allowList_arg txs bs of
                  (tr2, Inl err) \<Rightarrow> (SetStatusMinting True # tr1 @ tr2, Inl err)
                | (tr2, Inr nfts) \<Rightarrow>
                    (SetStatusMinting True # tr1 @ tr2,
                     Inr (nfts, bump_counters (guardsAndGroups st) (length nfts))))))"

definition mint_catch :: "js_error \<Rightarrow> event list \<times> nft list completion" where
  \<comment> \<open>Lines 267-286: classify, log the raw error, throw the message.\<close>
  "mint_catch error = ([ConsoleError error], Throw (Error (catch_message error)))"

definition mint_finally :: "nft option list \<Rightarrow> event list \<times> nft list completion" where
  \<comment> \<open>Lines 287-291: \<^verbatim>\<open>nfts.filter((a) => a)\<close> is returned from the finally block.\<close>
  "mint_finally nfts = ([SetStatusMinting False, Refresh], Return (List.map_filter id nfts))"

definition finally_completion :: "'a completion \<Rightarrow> 'a completion \<Rightarrow> 'a completion" where
  \<comment> \<open>A finally block that ends with \<^verbatim>\<open>return\<close> or \<^verbatim>\<open>throw\<close> replaces the completion
      of the try and catch blocks; one that ends normally keeps it.\<close>
  "finally_completion fin prior = (case fin of Normal \<Rightarrow> prior | Throw err \<Rightarrow> fin | Return v \<Rightarrow> fin)"

definition mint :: "env \<Rightarrow> 't hook \<Rightarrow> int \<Rightarrow> mint_opts \<Rightarrow> mint_result" where
  "mint e st quantityString opts =
     (case guardsAndGroups st (group_key opts) of
        None \<Rightarrow> \<lparr>outcome = Throw (Error ''Unknown guard group label''), trace = [],
                  groups_after = guardsAndGroups st\<rparr>
      | Some g \<Rightarrow>
          (case allowList_of (hook_proofMemo st) opts of
             Inl err \<Rightarrow> \<lparr>outcome = Throw err, trace = [], groups_after = guardsAndGroups st\<rparr>
           | Inr allowList_arg \<Rightarrow>
               (case mint_try e st quantityString opts allowList_arg of
                  (tr, Inl error) \<Rightarrow>
                    (let (tr_catch, c) = mint_catch error;
                         (tr_fin, c_fin) = mint_finally []
                     in \<lparr>outcome = finally_completion c_fin c, trace = tr @ tr_catch @ tr_fin,
                          groups_after = guardsAndGroups st\<rparr>)
                | (tr, Inr (nfts, groups)) \<Rightarrow>
                    (let (tr_fin, c_fin) = mint_finally nfts
                     in \<lparr>outcome = finally_completion c_fin Normal, trace = tr @ tr_fin,
                          groups_after = groups\<rparr>))))"

section \<open>Reading a call's trace and the counters\<close>

fun sends_at :: "commitment \<Rightarrow> event list \<Rightarrow> Transaction list" where
  \<comment> \<open>The transactions submitted at a commitment level, in order.\<close>
  "sends_at c [] = []"
| "sends_at c (SendAndConfirm tx c' # tr) = (if c' = c then tx # sends_at c tr else sends_at c tr)"
| "sends_at c (ev # tr) = sends_at c tr"

fun console_errors :: "event list \<Rightarrow> js_error list" where
  \<comment> \<open>The errors written by \<^verbatim>\<open>console.error\<close>.\<close>
  "console_errors [] = []"
| "console_errors (ConsoleError err # tr) = err # console_errors tr"
| "console_errors (ev # tr) = console_errors tr"

fun blockhash_fetches :: "event list \<Rightarrow> nat" where
  \<comment> \<open>How often \<^verbatim>\<open>getLatestBlockhash\<close> was called.\<close>
  "blockhash_fetches [] = 0"
| "blockhash_fetches (GetLatestBlockhash # tr) = Suc (blockhash_fetches tr)"
| "blockhash_fetches (ev # tr) = blockhash_fetches tr"

fun lookups_started :: "event list \<Rightarrow> mint_context list" where
  "lookups_started [] = []"
| "lookups_started (FindByMint ctx # tr) = ctx # lookups_started tr"
| "lookups_started (ev # tr) = lookups_started tr"

definition route_count :: "bytes list option \<Rightarrow> nat" where
  \<comment> \<open>The number of route transactions at the head of a plan.\<close>
  "route_count al = (case al of None \<Rightarrow> 0 | Some p \<Rightarrow> 1)"

definition counter_of :: "(string \<rightharpoonup> GuardGroup) \<Rightarrow> string \<Rightarrow> int option" where
  \<comment> \<open>\<^verbatim>\<open>groups[label].mintLimit?.mintCounter?.count\<close>\<close>
  "counter_of groups label =
     (case groups label of
        None \<Rightarrow> None
      | Some guards \<Rightarrow>
          (case mintLimit guards of
             None \<Rightarrow> None
           | Some ml \<Rightarrow> (case mintCounter ml of None \<Rightarrow> None | Some mc \<Rightarrow> Some (count mc))))"

section \<open>Sample inputs\<close>

text \<open>
  A stand-in for the merkle library: the tree is the list itself, a member's proof is one
  sibling, a non-member's proof is empty, as \<^verbatim>\<open>getMerkleProof\<close> gives it.
\<close>

definition sample_lib :: "string list merkle_lib" where
  "sample_lib =
     \<lparr>getMerkleTree = (\<lambda>xs. xs),
      getMerkleProof = (\<lambda>xs a. if a \<in> set xs then [[1]] else []),
      getRoot = (\<lambda>xs. map (\<lambda>x. of_nat (length x)) xs)\<rparr>"

text \<open>
  An environment in which every call succeeds, except the lookup of the second minted
  item. The i-th mint builder has its own mint signer.
\<close>

definition sample_env :: env where
  "sample_env =
     \<lparr>callCandyGuardRouteBuilder = (\<lambda>ri. Inr [IdentitySigner ''W'']),
      mintFromCandyMachineBuilder =
        (\<lambda>i mi. Inr ([IdentitySigner ''W'', KeypairSigner (replicate (Suc i) (CHR ''m''))],
                   \<lparr>mintSigner = replicate (Suc i) (CHR ''m''),
                    tokenAddress = replicate (Suc i) (CHR ''t'')\<rparr>)),
      getLatestBlockhash = Inr \<lparr>blockhash = ''bh'', lastValidBlockHeight = 100\<rparr>,
      toTransaction =
        (\<lambda>b bh. \<lparr>instructions = b, feePayer = None, recentBlockhash = None, signatures = []\<rparr>),
      signAllTransactions = (\<lambda>s txs. None),
      sendAndConfirmTransaction = (\<lambda>tx c. Inr ''sig''),
      findByMint =
        (\<lambda>ctx. if mintSigner ctx = ''mm'' then Inl (Error ''not found'')
               else Inr (mintSigner ctx))\<rparr>"

definition route_failing_env :: env where
  \<comment> \<open>As \<open>sample_env\<close>, but the submission at "processed" commitment is rejected.\<close>
  "route_failing_env =
     sample_env\<lparr>sendAndConfirmTransaction :=
       (\<lambda>tx c. if c = Processed then Inl (Error ''custom program error: 0x137'')
               else Inr ''sig'')\<rparr>"

definition sample_groups :: "string \<rightharpoonup> GuardGroup" where
  "sample_groups =
     [''default'' \<mapsto> \<lparr>allowList = Some [1], mintLimit = Some \<lparr>mintCounter = Some \<lparr>count = 0\<rparr>\<rparr>\<rparr>,
      ''wl'' \<mapsto> \<lparr>allowList = Some [1], mintLimit = None\<rparr>]"

definition sample_allowLists :: "(string \<times> string list) list" where
  "sample_allowLists = [(''wl'', [''A'']), (''default'', [''A''])]"

definition sample_hook :: "string option \<Rightarrow> string list hook" where
  \<comment> \<open>The hook's state for a wallet; the address \<open>A\<close> is on both allow-lists.\<close>
  "sample_hook pk =
     \<lparr>guardsAndGroups = sample_groups, candyMachine = Some \<lparr>authorityAddress = ''auth''\<rparr>,
      hook_proofMemo = proofMemo sample_lib (Some sample_allowLists) pk,
      wallet_publicKey = pk\<rparr>"

definition no_label :: mint_opts where
  \<comment> \<open>A request against the default group.\<close>
  "no_label = \<lparr>groupLabel = None, nftGuards = None\<rparr>"

definition wl_label :: mint_opts where
  \<comment> \<open>A request against the group \<open>wl\<close>.\<close>
  "wl_label = \<lparr>groupLabel = Some ''wl'', nftGuards = None\<rparr>"







section \<open>The plan built by a call\<close>

lemma mint_builders_shape:
  "mint_builders e cm opts al q i acc = Inr bs \<Longrightarrow>
     \<exists>ms. bs = acc @ ms
        \<and> map input ms = map (\<lambda>k. MintInput (mint_input_at cm opts al k)) [i..<nat q]
        \<and> list_all (\<lambda>b. getContext b \<noteq> None) ms"
proof (induction e cm opts al q i acc rule: mint_builders.induct)
  case (1 e cm opts al q i acc)
  show ?case
  proof (cases "int i < q")
    case False
    then have "nat q \<le> i" by linarith
    with False "1.prems" show ?thesis by (simp add: mint_builders.simps [of e cm opts al q i acc])
  next
    case True
    then have lt: "i < nat q" by linarith
    from True "1.prems" obtain ss ctx where
      lib: "mintFromCandyMachineBuilder e i (mint_input_at cm opts al i) = Inr (ss, ctx)"
      and rec: "mint_builders e cm opts al q (Suc i)
                  (acc @ [\<lparr>input = MintInput (mint_input_at cm opts al i),
                           getSigners = ss, getContext = Some ctx\<rparr>]) = Inr bs"
      by (auto simp: mint_builders.simps [of e cm opts al q i acc] split: sum.splits)
    from "1.IH" [OF True lib refl rec] obtain ms where
      ms: "bs = (acc @ [\<lparr>input = MintInput (mint_input_at cm opts al i),
                           getSigners = ss, getContext = Some ctx\<rparr>]) @ ms"
        "map input ms = map (\<lambda>k. MintInput (mint_input_at cm opts al k)) [Suc i..<nat q]"
        "list_all (\<lambda>b. getContext b \<noteq> None) ms"
      by blast
    let ?b = "\<lparr>input = MintInput (mint_input_at cm opts al i), getSigners = ss, getContext = Some ctx\<rparr>"
    have "bs = acc @ (?b # ms)" using ms(1) by simp
    moreover have "map input (?b # ms) = map (\<lambda>k. MintInput (mint_input_at cm opts al k)) [i..<nat q]"
      using ms(2) lt by (simp add: upt_conv_Cons)
    moreover have "list_all (\<lambda>b. getContext b \<noteq> None) (?b # ms)" using ms(3) by simp
    ultimately show ?thesis by blast
  qed
qed

lemma allowList_of_Some:
  "allowList_of pm opts = Inr (Some p) \<Longrightarrow> merkle_proof_at pm (group_key opts) = Inr p"
  by (auto simp: allowList_of_def merkle_proof_at_def group_key_def split: option.splits if_splits)

lemma route_builders_shape:
  assumes "allowList_of pm opts = Inr al" and "route_builders e cm pm opts al = Inr rs"
  shows "map input rs = (case al of None \<Rightarrow> [] | Some p \<Rightarrow> [RouteInput (route_input_for cm opts p)])
         \<and> length rs = (case al of None \<Rightarrow> 0 | Some p \<Rightarrow> 1)
         \<and> (case al of None \<Rightarrow> True | Some p \<Rightarrow> p \<noteq> [])"
proof (cases al)
  case None
  with assms(2) show ?thesis by (simp add: route_builders_def)
next
  case (Some p)
  with assms(1) have "merkle_proof_at pm (group_key opts) = Inr p" by (simp add: allowList_of_Some)
  with assms(2) Some show ?thesis
    by (auto simp: route_builders_def split: sum.splits if_splits)
qed

lemma build_shape:
  assumes "allowList_of pm opts = Inr al" and "build_transactionBuilders e cm pm opts al q = Inr bs"
  shows "\<exists>rs ms. bs = rs @ ms
          \<and> map input rs = (case al of None \<Rightarrow> [] | Some p \<Rightarrow> [RouteInput (route_input_for cm opts p)])
          \<and> length rs = (case al of None \<Rightarrow> 0 | Some p \<Rightarrow> 1)
          \<and> (case al of None \<Rightarrow> True | Some p \<Rightarrow> p \<noteq> [])
          \<and> map input ms = map (\<lambda>k. MintInput (mint_input_at cm opts al k)) [0..<nat q]
          \<and> list_all (\<lambda>b. getContext b \<noteq> None) ms"
proof -
  from assms(2) obtain rs where rs: "route_builders e cm pm opts al = Inr rs"
    and mb: "mint_builders e cm opts al q 0 rs = Inr bs"
    by (auto simp: build_transactionBuilders_def split: sum.splits)
  from mint_builders_shape [OF mb] obtain ms where
    "bs = rs @ ms" "map input ms = map (\<lambda>k. MintInput (mint_input_at cm opts al k)) [0..<nat q]"
    "list_all (\<lambda>b. getContext b \<noteq> None) ms" by blast
  with route_builders_shape [OF assms(1) rs] show ?thesis by blast
qed

lemma fold_apply_signer_fields:
  "feePayer (fst (fold apply_signer ss (tx, s))) = feePayer tx
   \<and> recentBlockhash (fst (fold apply_signer ss (tx, s))) = recentBlockhash tx"
proof (induction ss arbitrary: tx s)
  case Nil
  show ?case by simp
next
  case (Cons a ss)
  show ?case by (cases a) (simp_all add: Cons.IH partialSign_def)
qed

lemma assign_all_length: "length (fst (assign_all pk bh txs bs s)) = length txs"
  by (induction txs arbitrary: bs s) (simp_all add: Let_def case_prod_beta)

lemma assign_all_fields:
  "list_all (\<lambda>tx. feePayer tx = pk \<and> recentBlockhash tx = Some (blockhash bh))
     (fst (assign_all pk bh txs bs s))"
  by (induction txs arbitrary: bs s)
     (simp_all add: Let_def case_prod_beta fold_apply_signer_fields)

section \<open>The trace of each stage\<close>

lemma sends_at_append: "sends_at c (xs @ ys) = sends_at c xs @ sends_at c ys"
  by (induction c xs rule: sends_at.induct) simp_all

lemma console_errors_append: "console_errors (xs @ ys) = console_errors xs @ console_errors ys"
  by (induction xs rule: console_errors.induct) simp_all

lemma blockhash_fetches_append:
  "blockhash_fetches (xs @ ys) = blockhash_fetches xs + blockhash_fetches ys"
  by (induction xs rule: blockhash_fetches.induct) simp_all

lemma lookups_started_append:
  "lookups_started (xs @ ys) = lookups_started xs @ lookups_started ys"
  by (induction xs rule: lookups_started.induct) simp_all

lemmas trace_append =
  sends_at_append console_errors_append blockhash_fetches_append lookups_started_append

lemma sign_all_trace:
  "sends_at c (fst (sign_all e ss txs)) = [] \<and> console_errors (fst (sign_all e ss txs)) = []
   \<and> blockhash_fetches (fst (sign_all e ss txs)) = 0
   \<and> lookups_started (fst (sign_all e ss txs)) = []"
  by (induction ss) (simp_all add: case_prod_beta split: option.splits)

lemma mint_plan_trace:
  "sends_at c (fst (mint_plan e st cm q opts al)) = []
   \<and> console_errors (fst (mint_plan e st cm q opts al)) = []
   \<and> lookups_started (fst (mint_plan e st cm q opts al)) = []
   \<and> blockhash_fetches (fst (mint_plan e st cm q opts al)) \<le> 1"
  by (simp add: mint_plan_def Let_def case_prod_beta sign_all_trace
      split: sum.splits option.splits)

lemma mint_plan_success:
  assumes "mint_plan e st cm q opts al = (tr, Inr (txs, bs))"
  shows "\<exists>bh. build_transactionBuilders e cm (hook_proofMemo st) opts al q = Inr bs
           \<and> getLatestBlockhash e = Inr bh
           \<and> txs = fst (assign_all (wallet_publicKey st) bh
                          (map (\<lambda>t. toTransaction e t bh) bs) bs [])
           \<and> blockhash_fetches tr = 1"
  using assms
  by (auto simp: mint_plan_def Let_def case_prod_beta sign_all_trace
      split: sum.splits option.splits)

lemma submit_route_trace:
  "sends_at Finalized (fst (submit_route e al txs bs)) = []
   \<and> console_errors (fst (submit_route e al txs bs)) = []
   \<and> blockhash_fetches (fst (submit_route e al txs bs)) = 0
   \<and> lookups_started (fst (submit_route e al txs bs)) = []"
  by (simp add: submit_route_def split: option.splits list.splits sum.splits)

lemma submit_route_success:
  assumes "submit_route e al txs bs = (tr, Inr (txs', bs'))"
  shows "case al of None \<Rightarrow> txs' = txs \<and> bs' = bs \<and> tr = []
         | Some p \<Rightarrow> txs \<noteq> [] \<and> txs' = tl txs \<and> bs' = tl bs
                      \<and> tr = [SendAndConfirm (hd txs) Processed]"
  using assms
  by (auto simp: submit_route_def split: option.splits list.splits sum.splits)

lemma promise_all_length: "promise_all rs = Inr xs \<Longrightarrow> length xs = length rs"
  by (induction rs arbitrary: xs rule: promise_all.induct) (auto split: sum.splits)

lemma send_mints_length: "length (send_mints e txs bs) = length txs"
  by (induction txs arbitrary: bs) simp_all

lemma submit_mints_trace:
  "sends_at Finalized (fst (submit_mints e txs bs)) = txs
   \<and> sends_at Processed (fst (submit_mints e txs bs)) = []
   \<and> console_errors (fst (submit_mints e txs bs)) = []
   \<and> blockhash_fetches (fst (submit_mints e txs bs)) = 0
   \<and> lookups_started (fst (submit_mints e txs bs)) = []"
  by (induction txs) (simp_all add: submit_mints_def)

lemma lookups_trace:
  "sends_at c (fst (lookups e outs)) = [] \<and> console_errors (fst (lookups e outs)) = []
   \<and> blockhash_fetches (fst (lookups e outs)) = 0"
  by (induction outs) (simp_all add: case_prod_beta split: option.splits)

lemma lookups_success:
  "lookups e outs = (tr, Inr nfts) \<Longrightarrow>
     length nfts = length outs
     \<and> nfts = map (\<lambda>ctx. catch_null (findByMint e ctx)) (lookups_started tr)"
proof (induction outs arbitrary: tr nfts)
  case Nil
  then show ?case by simp
next
  case (Cons out outs)
  from Cons.prems obtain ctx tr' nfts' where
    c: "out_context out = Some ctx" and l: "lookups e outs = (tr', Inr nfts')"
    and tr: "tr = FindByMint ctx # tr'" and n: "nfts = catch_null (findByMint e ctx) # nfts'"
    by (cases "lookups e outs") (auto split: option.splits sum.splits)
  from Cons.IH [OF l] have len: "length nfts' = length outs"
    and eq: "nfts' = map (\<lambda>ctx. catch_null (findByMint e ctx)) (lookups_started tr')"
    by blast+
  have "length nfts = length (out # outs)" using len n by simp
  moreover have "nfts = map (\<lambda>ctx. catch_null (findByMint e ctx)) (lookups_started tr)"
    using eq tr n by simp
  ultimately show ?case by blast
qed




lemma submit_route_traceD:
  "submit_route e al txs bs = (tr, r) \<Longrightarrow>
     sends_at Finalized tr = [] \<and> console_errors tr = [] \<and> blockhash_fetches tr = 0
     \<and> lookups_started tr = []"
  using submit_route_trace [of e al txs bs] by simp

lemma submit_mints_traceD:
  "submit_mints e txs bs = (tr, r) \<Longrightarrow>
     sends_at Finalized tr = txs \<and> sends_at Processed tr = [] \<and> console_errors tr = []
     \<and> blockhash_fetches tr = 0 \<and> lookups_started tr = []"
  using submit_mints_trace [of e txs bs] by simp

lemma lookups_traceD:
  "lookups e outs = (tr, r) \<Longrightarrow>
     sends_at c tr = [] \<and> console_errors tr = [] \<and> blockhash_fetches tr = 0"
  using lookups_trace [of c e outs] by simp

lemma mint_submit_trace:
  "console_errors (fst (mint_submit e al txs bs)) = []
   \<and> blockhash_fetches (fst (mint_submit e al txs bs)) = 0"
  by (auto simp: mint_submit_def trace_append split: prod.splits sum.splits
      dest!: submit_route_traceD submit_mints_traceD lookups_traceD [where c = Finalized])

lemma mint_submit_success:
  assumes "mint_submit e al txs bs = (tr, Inr nfts)"
  shows "sends_at Processed tr = take (route_count al) txs
         \<and> sends_at Finalized tr = drop (route_count al) txs
         \<and> length nfts = length txs - route_count al
         \<and> nfts = map (\<lambda>ctx. catch_null (findByMint e ctx)) (lookups_started tr)"
proof -
  from assms obtain tr1 txs' bs' tr2 outs tr3 where
    r: "submit_route e al txs bs = (tr1, Inr (txs', bs'))"
    and m: "submit_mints e txs' bs' = (tr2, Inr outs)"
    and l: "lookups e outs = (tr3, Inr nfts)"
    and tr: "tr = tr1 @ tr2 @ tr3"
    by (auto simp: mint_submit_def split: prod.splits sum.splits)
  from submit_route_success [OF r] have
    r1: "sends_at Processed tr1 = take (route_count al) txs" and r2: "txs' = drop (route_count al) txs"
    and r3: "lookups_started tr1 = []" and r4: "sends_at Finalized tr1 = []"
    by (auto simp: route_count_def drop_Suc split: option.splits) (cases txs; simp)+
  from submit_mints_traceD [OF m] have
    m1: "sends_at Finalized tr2 = txs'" "sends_at Processed tr2 = []" "lookups_started tr2 = []"
    by simp_all
  from m have m2: "length outs = length txs'"
    by (auto simp: submit_mints_def dest!: promise_all_length simp: send_mints_length)
  from lookups_traceD [OF l] have l1: "sends_at Finalized tr3 = []" "sends_at Processed tr3 = []"
    by (simp_all add: lookups_traceD [OF l])
  from lookups_success [OF l] have l2: "length nfts = length outs"
    and l3: "nfts = map (\<lambda>ctx. catch_null (findByMint e ctx)) (lookups_started tr3)"
    by blast+
  show ?thesis
    using tr r1 r2 r3 r4 m1 m2 l1 l2 l3 by (simp add: trace_append)
qed

section \<open>The try block as a whole\<close>

lemma plan_lengths:
  assumes al: "allowList_of (hook_proofMemo st) opts = Inr al"
    and p: "mint_plan e st cm q opts al = (tr, Inr (txs, bs))"
  shows "length txs = route_count al + nat q \<and> length bs = length txs
         \<and> list_all (\<lambda>b. getContext b \<noteq> None) (drop (route_count al) bs)"
proof -
  from mint_plan_success [OF p] obtain bh where
    b: "build_transactionBuilders e cm (hook_proofMemo st) opts al q = Inr bs"
    and t: "txs = fst (assign_all (wallet_publicKey st) bh
                          (map (\<lambda>t. toTransaction e t bh) bs) bs [])"
    by blast
  from build_shape [OF al b] obtain rs ms where
    s: "bs = rs @ ms" "length rs = (case al of None \<Rightarrow> 0 | Some p \<Rightarrow> 1)"
       "map input ms = map (\<lambda>k. MintInput (mint_input_at cm opts al k)) [0..<nat q]"
       "list_all (\<lambda>b. getContext b \<noteq> None) ms"
    by blast
  from s(3) have "length (map input ms) = nat q" by simp
  then have lm: "length ms = nat q" by simp
  have lr: "length rs = route_count al" using s(2) by (simp add: route_count_def)
  have "length txs = length bs" using t by (simp add: assign_all_length)
  then show ?thesis using s(1) s(4) lm lr by simp
qed


lemma mint_try_trace:
  "console_errors (fst (mint_try e st q opts al)) = []
   \<and> blockhash_fetches (fst (mint_try e st q opts al)) \<le> 1"
proof (cases "candyMachine st")
  case None
  then show ?thesis by (simp add: mint_try_def)
next
  case (Some cm)
  obtain tr1 r1 where p: "mint_plan e st cm q opts al = (tr1, r1)"
    by (cases "mint_plan e st cm q opts al")
  from mint_plan_trace [of Finalized e st cm q opts al] p
  have t1: "console_errors tr1 = []" "blockhash_fetches tr1 \<le> 1" by simp_all
  show ?thesis
  proof (cases r1)
    case (Inl err)
    with Some p t1 show ?thesis by (simp add: mint_try_def)
  next
    case (Inr pr)
    obtain txs bs where pr: "pr = (txs, bs)" by (cases pr)
    obtain tr2 r2 where m: "mint_submit e al txs bs = (tr2, r2)"
      by (cases "mint_submit e al txs bs")
    from mint_submit_trace [of e al txs bs] m
    have t2: "console_errors tr2 = []" "blockhash_fetches tr2 = 0" by simp_all
    from Some p Inr pr m t1 t2 show ?thesis
      by (cases r2) (simp_all add: mint_try_def trace_append)
  qed
qed

lemma mint_try_success:
  assumes al: "allowList_of (hook_proofMemo st) opts = Inr al"
    and t: "mint_try e st q opts al = (tr, Inr (nfts, gs))"
  shows "length nfts = nat q
         \<and> gs = bump_counters (guardsAndGroups st) (nat q)
         \<and> length (sends_at Finalized tr) = nat q
         \<and> length (sends_at Processed tr) = route_count al
         \<and> nfts = map (\<lambda>ctx. catch_null (findByMint e ctx)) (lookups_started tr)
         \<and> blockhash_fetches tr = 1"
proof -
  from t obtain cm tr1 txs bs tr2 where
    cm: "candyMachine st = Some cm"
    and p: "mint_plan e st cm q opts al = (tr1, Inr (txs, bs))"
    and m: "mint_submit e al txs bs = (tr2, Inr nfts)"
    and tr: "tr = SetStatusMinting True # tr1 @ tr2"
    and gs: "gs = bump_counters (guardsAndGroups st) (length nfts)"
    by (auto simp: mint_try_def split: option.splits prod.splits sum.splits)
  from plan_lengths [OF al p] have len: "length txs = route_count al + nat q" by simp
  from mint_plan_trace [of Finalized e st cm q opts al] mint_plan_trace [of Processed e st cm q opts al] p
  have p1: "sends_at Finalized tr1 = []" "sends_at Processed tr1 = []" "lookups_started tr1 = []"
    by simp_all
  from mint_plan_success [OF p] have p2: "blockhash_fetches tr1 = 1" by blast
  from mint_submit_trace [of e al txs bs] m have m0: "blockhash_fetches tr2 = 0" by simp
  from mint_submit_success [OF m] have
    m1: "sends_at Processed tr2 = take (route_count al) txs"
    and m2: "sends_at Finalized tr2 = drop (route_count al) txs"
    and m3: "length nfts = length txs - route_count al"
    and m4: "nfts = map (\<lambda>ctx. catch_null (findByMint e ctx)) (lookups_started tr2)"
    by blast+
  have n: "length nfts = nat q" using m3 len by simp
  moreover have "gs = bump_counters (guardsAndGroups st) (nat q)" using gs n by simp
  moreover have "length (sends_at Finalized tr) = nat q"
    using tr p1 m2 len by (simp add: trace_append)
  moreover have "length (sends_at Processed tr) = route_count al"
    using tr p1 m1 len by (simp add: trace_append)
  moreover have "nfts = map (\<lambda>ctx. catch_null (findByMint e ctx)) (lookups_started tr)"
    using tr p1 m4 by (simp add: trace_append)
  moreover have "blockhash_fetches tr = 1" using tr p2 m0 by (simp add: trace_append)
  ultimately show ?thesis by blast
qed

lemma mint_of_success:
  assumes "guardsAndGroups st (group_key opts) = Some g"
    and "allowList_of (hook_proofMemo st) opts = Inr al"
    and "mint_try e st q opts al = (tr, Inr (nfts, gs))"
  shows "mint e st q opts =
           \<lparr>outcome = Return (List.map_filter id nfts),
            trace = tr @ [SetStatusMinting False, Refresh], groups_after = gs\<rparr>"
  using assms by (simp add: mint_def mint_finally_def finally_completion_def)

lemma mint_of_failure:
  assumes "guardsAndGroups st (group_key opts) = Some g"
    and "allowList_of (hook_proofMemo st) opts = Inr al"
    and "mint_try e st q opts al = (tr, Inl err)"
  shows "mint e st q opts =
           \<lparr>outcome = Return [],
            trace = tr @ [ConsoleError err, SetStatusMinting False, Refresh],
            groups_after = guardsAndGroups st\<rparr>"
  using assms
  by (simp add: mint_def mint_catch_def mint_finally_def finally_completion_def
      List.map_filter_simps)

lemma counter_of_bump_counters:
  "counter_of (bump_counters groups n) label
     = map_option (\<lambda>c. c + int n) (counter_of groups label)"
  by (simp add: counter_of_def bump_counters_def bump_group_def split: option.splits)


lemma mint_submit_sends: "set (sends_at c (fst (mint_submit e al txs bs))) \<subseteq> set txs"
proof -
  obtain tr1 r1 where r: "submit_route e al txs bs = (tr1, r1)"
    by (cases "submit_route e al txs bs")
  have s1: "set (sends_at c tr1) \<subseteq> set txs"
    using r by (auto simp: submit_route_def split: option.splits list.splits sum.splits if_splits)
  show ?thesis
  proof (cases r1)
    case (Inl err)
    with r s1 show ?thesis by (simp add: mint_submit_def)
  next
    case (Inr pr)
    obtain txs' bs' where pr: "pr = (txs', bs')" by (cases pr)
    have sub: "set txs' \<subseteq> set txs"
      using r Inr pr by (auto simp: submit_route_def split: option.splits list.splits sum.splits)
    obtain tr2 r2 where m: "submit_mints e txs' bs' = (tr2, r2)"
      by (cases "submit_mints e txs' bs'")
    have s2: "set (sends_at c tr2) \<subseteq> set txs"
      using submit_mints_traceD [OF m] sub by (cases c) auto
    show ?thesis
    proof (cases r2)
      case (Inl err)
      with r Inr pr m s1 s2 show ?thesis by (simp add: mint_submit_def trace_append)
    next
      case (Inr outs)
      obtain tr3 r3 where l: "lookups e outs = (tr3, r3)" by (cases "lookups e outs")
      from lookups_traceD [OF l, of c] have "sends_at c tr3 = []" by simp
      with r \<open>r1 = Inr pr\<close> pr m Inr l s1 s2 show ?thesis
        by (cases r3) (simp_all add: mint_submit_def trace_append)
    qed
  qed
qed

lemma mint_submit_no_route: "sends_at Processed (fst (mint_submit e None txs bs)) = []"
  by (auto simp: mint_submit_def submit_route_def trace_append split: prod.splits sum.splits
      dest!: submit_mints_traceD lookups_traceD [where c = Processed])

lemma mint_trace_with_plan:
  assumes "guardsAndGroups st (group_key opts) = Some g"
    and "allowList_of (hook_proofMemo st) opts = Inr al"
    and "candyMachine st = Some cm"
    and "mint_plan e st cm q opts al = (tr1, Inr (txs, bs))"
  shows "\<exists>rest. trace (mint e st q opts)
                 = SetStatusMinting True # tr1 @ fst (mint_submit e al txs bs) @ rest
               \<and> blockhash_fetches rest = 0 \<and> sends_at c rest = []"
proof -
  obtain tr2 r2 where m: "mint_submit e al txs bs = (tr2, r2)"
    by (cases "mint_submit e al txs bs")
  show ?thesis
  proof (cases r2)
    case (Inl err)
    with assms m have "mint_try e st q opts al = (SetStatusMinting True # tr1 @ tr2, Inl err)"
      by (simp add: mint_try_def)
    from mint_of_failure [OF assms(1,2) this] m show ?thesis by simp
  next
    case (Inr nfts)
    with assms m have "mint_try e st q opts al
        = (SetStatusMinting True # tr1 @ tr2,
           Inr (nfts, bump_counters (guardsAndGroups st) (length nfts)))"
      by (simp add: mint_try_def)
    from mint_of_success [OF assms(1,2) this] m show ?thesis by simp
  qed
qed

lemma mint_trace_fetches: "blockhash_fetches (trace (mint e st q opts)) \<le> 1"
proof (cases "guardsAndGroups st (group_key opts)")
  case None
  then show ?thesis by (simp add: mint_def)
next
  case (Some g)
  show ?thesis
  proof (cases "allowList_of (hook_proofMemo st) opts")
    case (Inl err)
    with Some show ?thesis by (simp add: mint_def)
  next
    case (Inr al)
    obtain tr r where t: "mint_try e st q opts al = (tr, r)" by (cases "mint_try e st q opts al")
    from mint_try_trace [of e st q opts al] t have f: "blockhash_fetches tr \<le> 1" by simp
    show ?thesis
    proof (cases r)
      case (Inl err)
      from mint_of_failure [OF Some Inr t [unfolded Inl]] f show ?thesis
        by (simp add: trace_append)
    next
      case (Inr pr)
      obtain nfts gs where "pr = (nfts, gs)" by (cases pr)
      with t Inr have "mint_try e st q opts al = (tr, Inr (nfts, gs))" by simp
      from mint_of_success [OF Some \<open>allowList_of (hook_proofMemo st) opts = Inr al\<close> this] f
      show ?thesis by (simp add: trace_append)
    qed
  qed
qed


lemma mint_plan_fetch_once:
  "build_transactionBuilders e cm (hook_proofMemo st) opts al q = Inr bs \<Longrightarrow>
     blockhash_fetches (fst (mint_plan e st cm q opts al)) = 1"
  by (simp add: mint_plan_def Let_def case_prod_beta sign_all_trace
      split: sum.splits option.splits)

lemma mint_trace_from_plan:
  assumes "guardsAndGroups st (group_key opts) = Some g"
    and "allowList_of (hook_proofMemo st) opts = Inr al"
    and "candyMachine st = Some cm"
  shows "\<exists>rest. trace (mint e st q opts)
                 = SetStatusMinting True # fst (mint_plan e st cm q opts al) @ rest
               \<and> blockhash_fetches rest = 0"
proof -
  obtain tr1 r1 where p: "mint_plan e st cm q opts al = (tr1, r1)"
    by (cases "mint_plan e st cm q opts al")
  show ?thesis
  proof (cases r1)
    case (Inl err)
    with assms(3) p have "mint_try e st q opts al = (SetStatusMinting True # tr1, Inl err)"
      by (simp add: mint_try_def)
    from mint_of_failure [OF assms(1,2) this] p show ?thesis by simp
  next
    case (Inr pr)
    obtain txs bs where "pr = (txs, bs)" by (cases pr)
    with p Inr have p': "mint_plan e st cm q opts al = (tr1, Inr (txs, bs))" by simp
    from mint_trace_with_plan [OF assms p', of Finalized] obtain rest where
      "trace (mint e st q opts) = SetStatusMinting True # tr1 @ fst (mint_submit e al txs bs) @ rest"
      "blockhash_fetches rest = 0"
      by blast
    with p' mint_submit_trace [of e al txs bs] show ?thesis
      by (intro exI [of _ "fst (mint_submit e al txs bs) @ rest"]) (simp add: trace_append)
  qed
qed

lemma mint_fetches_once_with_builders:
  assumes "guardsAndGroups st (group_key opts) = Some g"
    and "allowList_of (hook_proofMemo st) opts = Inr al"
    and "candyMachine st = Some cm"
    and "build_transactionBuilders e cm (hook_proofMemo st) opts al q = Inr bs"
  shows "blockhash_fetches (trace (mint e st q opts)) = 1"
proof -
  from mint_trace_from_plan [OF assms(1-3)] obtain rest where
    "trace (mint e st q opts) = SetStatusMinting True # fst (mint_plan e st cm q opts al) @ rest"
    "blockhash_fetches rest = 0"
    by blast
  with mint_plan_fetch_once [OF assms(4)] show ?thesis by (simp add: trace_append)
qed

lemma mint_route_rejected:
  assumes "guardsAndGroups st (group_key opts) = Some g"
    and "allowList_of (hook_proofMemo st) opts = Inr (Some p)"
    and "candyMachine st = Some cm"
    and "mint_plan e st cm q opts (Some p) = (tr1, Inr (tx # txs, bs))"
    and "sendAndConfirmTransaction e tx Processed = Inl err"
  shows "mint e st q opts =
           \<lparr>outcome = Return [],
            trace = SetStatusMinting True # tr1 @
                      [SendAndConfirm tx Processed, ConsoleError err, SetStatusMinting False,
                       Refresh],
            groups_after = guardsAndGroups st\<rparr>"
proof -
  from assms(5) have "mint_submit e (Some p) (tx # txs) bs = ([SendAndConfirm tx Processed], Inl err)"
    by (simp add: mint_submit_def submit_route_def)
  with assms(3,4) have "mint_try e st q opts (Some p)
      = (SetStatusMinting True # tr1 @ [SendAndConfirm tx Processed], Inl err)"
    by (simp add: mint_try_def)
  from mint_of_failure [OF assms(1,2) this] show ?thesis by simp
qed

section \<open>Failures of the stages of the try block\<close>













section \<open>The error classifier\<close>

lemma indexOf_lower_bound: "- 1 \<le> indexOf s pat"
  by (induction s) (auto simp: Let_def)

lemma indexOf_zero_iff: "indexOf s pat = 0 \<longleftrightarrow> prefix pat s"
proof (cases s)
  case Nil
  then show ?thesis by simp
next
  case (Cons c cs)
  have "- 1 \<le> indexOf cs pat" by (rule indexOf_lower_bound)
  then show ?thesis using Cons by (auto simp: Let_def)
qed

lemma catch_message_without_msg:
  "catch_message \<lparr>msg = None, message = Some m, code = c\<rparr> =
     (if m = [] then ''Transaction Timeout! Please try again.''
      else if prefix ''0x138'' m then ''SOLD OUT!''
      else ''Minting failed! Please try again!'')"
proof -
  have "prefix ''0x138'' m \<Longrightarrow> \<not> prefix ''0x137'' m"
    by (auto simp: prefix_def)
  then show ?thesis
    by (auto simp: catch_message_def truthy_str_def truthy_num_def indexOf_zero_iff)
qed

text \<open>
  C4. A failure whose message contains the sold-out signature \<^verbatim>\<open>0x137\<close> should be
  classified as sold out, and one with the insufficient-funds signature \<^verbatim>\<open>0x135\<close> as
  insufficient funds. The handler tests \<^verbatim>\<open>indexOf\<close> for truth, and \<open>-1\<close> (not found) is
  true: a message that contains \<^verbatim>\<open>0x137\<close> or \<^verbatim>\<open>0x135\<close> gets the generic message, and
  only a message that begins with \<^verbatim>\<open>0x138\<close> is reported as sold out. A failure without
  any message is a timeout, as claimed.
\<close>

theorem catch_message_signatures:
  "catch_message (Error ''custom program error: 0x137'') = ''Minting failed! Please try again!''
   \<and> catch_message (Error ''custom program error: 0x135'') = ''Minting failed! Please try again!''
   \<and> catch_message (Error ''0x138'') = ''SOLD OUT!''
   \<and> catch_message \<lparr>msg = None, message = None, code = None\<rparr>
       = ''Transaction Timeout! Please try again.''"
  by code_simp

section \<open>The allow-list index\<close>

text \<open>
  C3. For an address that is not on the allow-list of a label, verification against the
  root of that label's tree should fail. The address \<open>B\<close> is not on the list \<open>[A]\<close> of
  the label \<open>wl\<close>; the index stores the proof the library computes for \<open>B\<close>, and
  \<open>verifyProof\<close> at the tree's root answers \<open>true\<close> whatever that proof is, for every
  merkle library.
\<close>

theorem verifyProof_accepts_non_member:
  "map_option (\<lambda>ms. map_option proof' (ms ''wl''))
       (merkles (proofMemo lib (Some [(''wl'', [''A''])]) (Some ''B'')))
     = Some (Some (getMerkleProof lib [''A''] ''B''))
   \<and> verifyProof (proofMemo lib (Some [(''wl'', [''A''])]) (Some ''B''))
        (getRoot lib (getMerkleTree lib [''A''])) (Some ''wl'') = Some True"
  by (simp add: proofMemo_def no_allowLists_def build_merkles_def verifyProof_merkles_def
      truthy_array_def Let_def)

text \<open>
  C8. When no allow-list is configured (the option is absent or empty), \<open>verifyProof\<close>
  is true for every caller, root and label; when allow-lists are configured and the wallet
  has no public key, it is false for every root and label.
\<close>

theorem verifyProof_open_mint_or_no_wallet:
  "(no_allowLists allowLists \<longrightarrow>
      verifyProof (proofMemo lib allowLists publicKey) merkleRoot label = Some True)
   \<and> (\<not> no_allowLists allowLists \<longrightarrow>
      verifyProof (proofMemo lib allowLists None) merkleRoot label = Some False)"
  by (simp add: proofMemo_def)

theorem verifyProof_open_mint_or_no_wallet_witness:
  "no_allowLists None \<and> \<not> no_allowLists (Some sample_allowLists)
   \<and> verifyProof (proofMemo sample_lib None (Some ''A'')) [1] (Some ''wl'') = Some True
   \<and> verifyProof (proofMemo sample_lib (Some sample_allowLists) None) [1] (Some ''wl'')
       = Some False"
  using verifyProof_open_mint_or_no_wallet [of None sample_lib "Some ''A''" "[1]" "Some ''wl''"]
        verifyProof_open_mint_or_no_wallet
          [of "Some sample_allowLists" sample_lib "Some ''A''" "[1]" "Some ''wl''"]
  by (simp add: no_allowLists_def sample_allowLists_def)

section \<open>Failures inside a mint call\<close>

text \<open>
  C6. A call for the allow-list group \<open>wl\<close> by the wallet \<open>B\<close>, which is not on the
  list, should fail with the not-in-allow-list error and submit nothing. The error is
  raised before any submission and logged, and nothing is submitted; but the call does not
  fail: the \<^verbatim>\<open>return\<close> of the finally block replaces the error thrown by the handler,
  and the call resolves with the empty list. The same happens when the candy machine is
  not loaded.
\<close>

theorem mint_not_in_allow_list_resolves:
  "outcome (mint sample_env (sample_hook (Some ''B'')) 2
              \<lparr>groupLabel = Some ''wl'', nftGuards = None\<rparr>) = Return []
   \<and> trace (mint sample_env (sample_hook (Some ''B'')) 2
              \<lparr>groupLabel = Some ''wl'', nftGuards = None\<rparr>)
       = [SetStatusMinting True, ConsoleError (Error ''User is not in allowed list''),
          SetStatusMinting False, Refresh]
   \<and> outcome (mint sample_env ((sample_hook (Some ''A''))\<lparr>candyMachine := None\<rparr>) 1
              \<lparr>groupLabel = None, nftGuards = None\<rparr>) = Return []
   \<and> trace (mint sample_env ((sample_hook (Some ''A''))\<lparr>candyMachine := None\<rparr>) 1
              \<lparr>groupLabel = None, nftGuards = None\<rparr>)
       = [ConsoleError (Error ''Candy Machine not loaded yet!''), SetStatusMinting False,
          Refresh]"
  by code_simp

text \<open>
  C5. When the submission of the route transaction is rejected, no mint transaction
  should be submitted and the call should fail with the classified error. In the call
  below the route transaction is the only one submitted and its error is logged; the call
  resolves with the empty list instead of failing, because the finally block returns.
\<close>

theorem mint_route_failure_resolves:
  "outcome (mint route_failing_env (sample_hook (Some ''A'')) 2
              \<lparr>groupLabel = Some ''wl'', nftGuards = None\<rparr>) = Return []
   \<and> length (sends_at Processed (trace (mint route_failing_env (sample_hook (Some ''A'')) 2
              \<lparr>groupLabel = Some ''wl'', nftGuards = None\<rparr>))) = 1
   \<and> sends_at Finalized (trace (mint route_failing_env (sample_hook (Some ''A'')) 2
              \<lparr>groupLabel = Some ''wl'', nftGuards = None\<rparr>)) = []
   \<and> console_errors (trace (mint route_failing_env (sample_hook (Some ''A'')) 2
              \<lparr>groupLabel = Some ''wl'', nftGuards = None\<rparr>))
       = [Error ''custom program error: 0x137'']"
  by code_simp

section \<open>Counters and returned items\<close>

text \<open>
  C2, as stated: the counter grows by the number of resolved items. In a call for three
  items whose second lookup fails, the counter of the default group goes from 0 to 3 while
  two items are returned.
\<close>

theorem mint_counter_counts_absent_slot:
  "counter_of (guardsAndGroups (sample_hook (Some ''A''))) ''default'' = Some 0
   \<and> counter_of (groups_after (mint sample_env (sample_hook (Some ''A'')) 3 no_label)) ''default''
       = Some 3
   \<and> outcome (mint sample_env (sample_hook (Some ''A'')) 3 no_label) = Return [''m'', ''mmm'']"
  by code_simp

text \<open>
  C2, amended. When the try block of a call completes, with \<open>nfts\<close> the array of
  lookup results (one slot per finalized mint transaction, absent slots included), the
  array has one slot per requested item, the counter of every group that has one grows by
  the length of that array, and the call returns exactly the present items. When the try
  block fails, no counter changes.
\<close>

theorem mint_counters_count_lookup_slots:
  assumes "guardsAndGroups st (group_key opts) = Some g"
    and "allowList_of (hook_proofMemo st) opts = Inr al"
  shows "(\<forall>tr nfts gs. mint_try e st q opts al = (tr, Inr (nfts, gs)) \<longrightarrow>
            length nfts = nat q
            \<and> length (sends_at Finalized (trace (mint e st q opts))) = nat q
            \<and> (\<forall>label. counter_of (groups_after (mint e st q opts)) label
                  = map_option (\<lambda>c. c + int (length nfts)) (counter_of (guardsAndGroups st) label))
            \<and> outcome (mint e st q opts) = Return (List.map_filter id nfts))
       \<and> (\<forall>tr err. mint_try e st q opts al = (tr, Inl err) \<longrightarrow>
            groups_after (mint e st q opts) = guardsAndGroups st)"
proof (intro conjI allI impI)
  fix tr nfts gs label
  assume t: "mint_try e st q opts al = (tr, Inr (nfts, gs))"
  note s = mint_try_success [OF assms(2) t]
  note m = mint_of_success [OF assms t]
  show "length nfts = nat q" using s by blast
  show "length (sends_at Finalized (trace (mint e st q opts))) = nat q"
    using s m by (simp add: trace_append)
  from s have n: "length nfts = nat q"
    and gs: "gs = bump_counters (guardsAndGroups st) (nat q)" by blast+
  have "gs = bump_counters (guardsAndGroups st) (length nfts)" using gs by (simp only: n)
  moreover have "groups_after (mint e st q opts) = gs" using m by simp
  ultimately show "counter_of (groups_after (mint e st q opts)) label
          = map_option (\<lambda>c. c + int (length nfts)) (counter_of (guardsAndGroups st) label)"
    by (simp add: counter_of_bump_counters)
  show "outcome (mint e st q opts) = Return (List.map_filter id nfts)"
    using m by simp
next
  fix tr err
  assume "mint_try e st q opts al = (tr, Inl err)"
  from mint_of_failure [OF assms this]
  show "groups_after (mint e st q opts) = guardsAndGroups st" by simp
qed

theorem mint_counters_count_lookup_slots_witness:
  "counter_of (groups_after (mint sample_env (sample_hook (Some ''A'')) 3 no_label)) ''default''
     = Some (0 + int (length [Some ''m'', None, Some ''mmm'']))
   \<and> length (sends_at Finalized (trace (mint sample_env (sample_hook (Some ''A'')) 3 no_label)))
       = nat 3
   \<and> outcome (mint sample_env (sample_hook (Some ''A'')) 3 no_label)
       = Return (List.map_filter id [Some ''m'', None, Some ''mmm''])
   \<and> groups_after (mint route_failing_env (sample_hook (Some ''A'')) 2 wl_label)
       = guardsAndGroups (sample_hook (Some ''A''))"
proof -
  let ?st = "sample_hook (Some ''A'')"
  have g: "guardsAndGroups ?st (group_key no_label)
             = Some \<lparr>allowList = Some [1], mintLimit = Some \<lparr>mintCounter = Some \<lparr>count = 0\<rparr>\<rparr>\<rparr>"
    by code_simp
  have al: "allowList_of (hook_proofMemo ?st) no_label = Inr None" by code_simp
  have "map_sum id fst (snd (mint_try sample_env ?st 3 no_label None))
          = Inr [Some ''m'', None, Some ''mmm'']"
    by code_simp
  then obtain tr gs where
    t: "mint_try sample_env ?st 3 no_label None = (tr, Inr ([Some ''m'', None, Some ''mmm''], gs))"
    by (cases "mint_try sample_env ?st 3 no_label None";
        cases "snd (mint_try sample_env ?st 3 no_label None)") auto
  have c0: "counter_of (guardsAndGroups ?st) ''default'' = Some 0" by code_simp
  have g2: "guardsAndGroups ?st (group_key wl_label) = Some \<lparr>allowList = Some [1], mintLimit = None\<rparr>"
    by code_simp
  have al2: "allowList_of (hook_proofMemo ?st) wl_label = Inr (Some [[1]])" by code_simp
  have "map_sum id fst (snd (mint_try route_failing_env ?st 2 wl_label (Some [[1]])))
          = Inl (Error ''custom program error: 0x137'')"
    by code_simp
  then obtain tr2 where
    t2: "mint_try route_failing_env ?st 2 wl_label (Some [[1]])
           = (tr2, Inl (Error ''custom program error: 0x137''))"
    by (cases "mint_try route_failing_env ?st 2 wl_label (Some [[1]])";
        cases "snd (mint_try route_failing_env ?st 2 wl_label (Some [[1]]))") auto
  show ?thesis
    using mint_counters_count_lookup_slots [OF g al, of sample_env 3] t c0
      mint_counters_count_lookup_slots [OF g2 al2, of route_failing_env 2] t2
    by simp
qed

section \<open>Failures and the items returned\<close>




section \<open>The shape of the plan\<close>





text \<open>
  C10. For a request without group label (absent or empty), the allow-list setting is
  absent whatever the merkle index and the guards of the default group hold: the route
  stage builds nothing and checks no proof, every builder of the plan is a mint builder
  whose allow-list setting is absent, and the call submits no transaction at "processed"
  commitment.
\<close>

theorem default_group_skips_allow_list:
  assumes "\<not> truthy_str (groupLabel opts)"
  shows "allowList_of (hook_proofMemo st) opts = Inr None
       \<and> route_builders e cm (hook_proofMemo st) opts None = Inr []
       \<and> (\<forall>bs. build_transactionBuilders e cm (hook_proofMemo st) opts None q = Inr bs \<longrightarrow>
             map input bs = map (\<lambda>index. MintInput (mint_input_at cm opts None index)) [0..<nat q])
       \<and> guards_allowList (mint_input_at cm opts None index) = None
       \<and> sends_at Processed (trace (mint e st q opts)) = []"
proof -
  from assms have al: "allowList_of (hook_proofMemo st) opts = Inr None"
    by (auto simp: allowList_of_def truthy_str_def split: option.splits)
  have rb: "route_builders e cm (hook_proofMemo st) opts None = Inr []"
    by (simp add: route_builders_def)
  have shape: "\<forall>bs. build_transactionBuilders e cm (hook_proofMemo st) opts None q = Inr bs \<longrightarrow>
             map input bs = map (\<lambda>index. MintInput (mint_input_at cm opts None index)) [0..<nat q]"
  proof (intro allI impI)
    fix bs
    assume "build_transactionBuilders e cm (hook_proofMemo st) opts None q = Inr bs"
    from build_shape [OF al this]
    show "map input bs = map (\<lambda>index. MintInput (mint_input_at cm opts None index)) [0..<nat q]"
      by auto
  qed
  have ga: "guards_allowList (mint_input_at cm opts None index) = None"
    by (simp add: mint_input_at_def)
  have sends: "sends_at Processed (trace (mint e st q opts)) = []"
  proof (cases "guardsAndGroups st (group_key opts)")
    case None
    then show ?thesis by (simp add: mint_def)
  next
    case (Some g)
    show ?thesis
    proof (cases "candyMachine st")
      case None
      then have "mint_try e st q opts None = ([], Inl (Error ''Candy Machine not loaded yet!''))"
        by (simp add: mint_try_def)
      from mint_of_failure [OF Some al this] show ?thesis by simp
    next
      case (Some cm')
      obtain tr1 r1 where p: "mint_plan e st cm' q opts None = (tr1, r1)"
        by (cases "mint_plan e st cm' q opts None")
      from mint_plan_trace [of Processed e st cm' q opts None] p
      have t1: "sends_at Processed tr1 = []" by simp
      show ?thesis
      proof (cases r1)
        case (Inl err)
        with Some p have "mint_try e st q opts None = (SetStatusMinting True # tr1, Inl err)"
          by (simp add: mint_try_def)
        from mint_of_failure [OF \<open>guardsAndGroups st (group_key opts) = Some g\<close> al this] t1
        show ?thesis by (simp add: trace_append)
      next
        case (Inr pr)
        obtain txs bs where "pr = (txs, bs)" by (cases pr)
        with p Inr have p': "mint_plan e st cm' q opts None = (tr1, Inr (txs, bs))" by simp
        from mint_trace_with_plan [OF \<open>guardsAndGroups st (group_key opts) = Some g\<close> al Some p',
            of Processed]
        show ?thesis using t1 mint_submit_no_route [of e txs bs]
          by (auto simp: trace_append)
      qed
    qed
  qed
  from al rb shape ga sends show ?thesis by blast
qed

theorem default_group_skips_allow_list_witness:
  "\<not> truthy_str (groupLabel no_label)
   \<and> map_option allowList (guardsAndGroups (sample_hook (Some ''B'')) ''default'') = Some (Some [1])
   \<and> merkle_proof_at (hook_proofMemo (sample_hook (Some ''B''))) ''default'' = Inr []
   \<and> allowList_of (hook_proofMemo (sample_hook (Some ''B''))) no_label = Inr None
   \<and> route_builders sample_env \<lparr>authorityAddress = ''auth''\<rparr>
        (hook_proofMemo (sample_hook (Some ''B''))) no_label None = Inr []
   \<and> sends_at Processed (trace (mint sample_env (sample_hook (Some ''B'')) 1 no_label)) = []
   \<and> outcome (mint sample_env (sample_hook (Some ''B'')) 1 no_label) = Return [''m'']"
proof -
  have h: "\<not> truthy_str (groupLabel no_label)" by code_simp
  have a: "map_option allowList (guardsAndGroups (sample_hook (Some ''B'')) ''default'') = Some (Some [1])"
    by code_simp
  have b: "merkle_proof_at (hook_proofMemo (sample_hook (Some ''B''))) ''default'' = Inr []"
    by code_simp
  have c: "outcome (mint sample_env (sample_hook (Some ''B'')) 1 no_label) = Return [''m'']"
    by code_simp
  show ?thesis
    using default_group_skips_allow_list
      [OF h, of "sample_hook (Some ''B'')" sample_env "\<lparr>authorityAddress = ''auth''\<rparr>" 1 0]
      h a b c
    by blast
qed

section \<open>One blockhash and one fee payer\<close>

text \<open>
  C9. A call fetches the latest blockhash at most once, and exactly once when the
  builders of its plan have been constructed. Every transaction of the plan, the route transaction and
  the mint transactions alike, carries the blockhash of that one fetch and the wallet's
  public key as fee payer, and every transaction the call submits is one of the plan.
\<close>

theorem single_blockhash_shared:
  "blockhash_fetches (trace (mint e st q opts)) \<le> 1
   \<and> (\<forall>g al cm bs.
         guardsAndGroups st (group_key opts) = Some g
         \<and> allowList_of (hook_proofMemo st) opts = Inr al
         \<and> candyMachine st = Some cm
         \<and> build_transactionBuilders e cm (hook_proofMemo st) opts al q = Inr bs \<longrightarrow>
         blockhash_fetches (trace (mint e st q opts)) = 1)
   \<and> (\<forall>g al cm tr txs bs.
         guardsAndGroups st (group_key opts) = Some g
         \<and> allowList_of (hook_proofMemo st) opts = Inr al
         \<and> candyMachine st = Some cm
         \<and> mint_plan e st cm q opts al = (tr, Inr (txs, bs)) \<longrightarrow>
         length txs = route_count al + nat q
         \<and> (\<exists>bh. getLatestBlockhash e = Inr bh
                \<and> list_all (\<lambda>tx. recentBlockhash tx = Some (blockhash bh)
                                  \<and> feePayer tx = wallet_publicKey st) txs)
         \<and> set (sends_at Processed (trace (mint e st q opts))) \<subseteq> set txs
         \<and> set (sends_at Finalized (trace (mint e st q opts))) \<subseteq> set txs)"
proof (intro conjI allI impI)
  show "blockhash_fetches (trace (mint e st q opts)) \<le> 1" by (rule mint_trace_fetches)
next
  fix g al cm bs
  assume "guardsAndGroups st (group_key opts) = Some g
         \<and> allowList_of (hook_proofMemo st) opts = Inr al
         \<and> candyMachine st = Some cm
         \<and> build_transactionBuilders e cm (hook_proofMemo st) opts al q = Inr bs"
  then show "blockhash_fetches (trace (mint e st q opts)) = 1"
    using mint_fetches_once_with_builders [of st opts g al cm e q bs] by blast
next
  fix g al cm tr txs bs
  assume h: "guardsAndGroups st (group_key opts) = Some g
         \<and> allowList_of (hook_proofMemo st) opts = Inr al
         \<and> candyMachine st = Some cm
         \<and> mint_plan e st cm q opts al = (tr, Inr (txs, bs))"
  then have g: "guardsAndGroups st (group_key opts) = Some g"
    and al: "allowList_of (hook_proofMemo st) opts = Inr al"
    and cm: "candyMachine st = Some cm"
    and p: "mint_plan e st cm q opts al = (tr, Inr (txs, bs))"
    by blast+
  from mint_plan_success [OF p] obtain bh where
    bh: "getLatestBlockhash e = Inr bh"
    and txs: "txs = fst (assign_all (wallet_publicKey st) bh
                          (map (\<lambda>t. toTransaction e t bh) bs) bs [])"
    by blast
  have none: "sends_at c tr = []" for c
    using mint_plan_trace [of c e st cm q opts al] p by simp
  have sub: "set (sends_at c (trace (mint e st q opts))) \<subseteq> set txs" for c
  proof -
    from mint_trace_with_plan [OF g al cm p, of c] obtain rest where
      "trace (mint e st q opts) = SetStatusMinting True # tr @ fst (mint_submit e al txs bs) @ rest"
      "sends_at c rest = []"
      by blast
    then show ?thesis
      using none [of c] mint_submit_sends [of c e al txs bs] by (simp add: trace_append)
  qed
  show "length txs = route_count al + nat q" using plan_lengths [OF al p] by simp
  have "list_all (\<lambda>tx. recentBlockhash tx = Some (blockhash bh)
                        \<and> feePayer tx = wallet_publicKey st) txs"
    using assign_all_fields [of "wallet_publicKey st" bh "map (\<lambda>t. toTransaction e t bh) bs" bs "[]"]
    unfolding txs by (simp add: list_all_iff)
  with bh show "\<exists>bh. getLatestBlockhash e = Inr bh
                \<and> list_all (\<lambda>tx. recentBlockhash tx = Some (blockhash bh)
                                  \<and> feePayer tx = wallet_publicKey st) txs"
    by blast
  show "set (sends_at Processed (trace (mint e st q opts))) \<subseteq> set txs" by (rule sub)
  show "set (sends_at Finalized (trace (mint e st q opts))) \<subseteq> set txs" by (rule sub)
qed

theorem single_blockhash_shared_witness:
  "blockhash_fetches (trace (mint sample_env (sample_hook (Some ''A'')) 2 wl_label)) = 1
   \<and> getLatestBlockhash sample_env = Inr \<lparr>blockhash = ''bh'', lastValidBlockHeight = 100\<rparr>
   \<and> length (sends_at Processed (trace (mint sample_env (sample_hook (Some ''A'')) 2 wl_label))) = 1
   \<and> length (sends_at Finalized (trace (mint sample_env (sample_hook (Some ''A'')) 2 wl_label))) = 2
   \<and> list_all (\<lambda>tx. recentBlockhash tx = Some ''bh'' \<and> feePayer tx = Some ''A'')
        (sends_at Processed (trace (mint sample_env (sample_hook (Some ''A'')) 2 wl_label))
         @ sends_at Finalized (trace (mint sample_env (sample_hook (Some ''A'')) 2 wl_label)))"
proof -
  let ?st = "sample_hook (Some ''A'')"
  let ?cm = "\<lparr>authorityAddress = ''auth''\<rparr>"
  let ?tr = "trace (mint sample_env ?st 2 wl_label)"
  have g: "guardsAndGroups ?st (group_key wl_label) = Some \<lparr>allowList = Some [1], mintLimit = None\<rparr>"
    by code_simp
  have al: "allowList_of (hook_proofMemo ?st) wl_label = Inr (Some [[1]])" by code_simp
  have cm: "candyMachine ?st = Some ?cm" by code_simp
  have "\<not> isl (snd (mint_plan sample_env ?st ?cm 2 wl_label (Some [[1]])))" by code_simp
  then obtain tr1 txs bs where
    p: "mint_plan sample_env ?st ?cm 2 wl_label (Some [[1]]) = (tr1, Inr (txs, bs))"
    by (cases "mint_plan sample_env ?st ?cm 2 wl_label (Some [[1]])";
        cases "snd (mint_plan sample_env ?st ?cm 2 wl_label (Some [[1]]))") auto
  have bh: "getLatestBlockhash sample_env = Inr \<lparr>blockhash = ''bh'', lastValidBlockHeight = 100\<rparr>"
    by code_simp
  have pk: "wallet_publicKey ?st = Some ''A''" by code_simp
  have n1: "length (sends_at Processed ?tr) = 1" by code_simp
  have n2: "length (sends_at Finalized ?tr) = 2" by code_simp
  have "\<not> isl (build_transactionBuilders sample_env ?cm (hook_proofMemo ?st) wl_label
                   (Some [[1]]) 2)"
    by code_simp
  then obtain bs0 where
    b: "build_transactionBuilders sample_env ?cm (hook_proofMemo ?st) wl_label (Some [[1]]) 2
          = Inr bs0"
    by (cases "build_transactionBuilders sample_env ?cm (hook_proofMemo ?st) wl_label
                 (Some [[1]]) 2") auto
  from single_blockhash_shared [of sample_env ?st 2 wl_label] g al cm b
  have f: "blockhash_fetches ?tr = 1" by blast
  from single_blockhash_shared [of sample_env ?st 2 wl_label] g al cm p
  have fields: "\<exists>b. getLatestBlockhash sample_env = Inr b
                \<and> list_all (\<lambda>tx. recentBlockhash tx = Some (blockhash b)
                                  \<and> feePayer tx = wallet_publicKey ?st) txs"
    and s1: "set (sends_at Processed ?tr) \<subseteq> set txs"
    and s2: "set (sends_at Finalized ?tr) \<subseteq> set txs"
    by blast+
  from fields bh pk have "list_all (\<lambda>tx. recentBlockhash tx = Some ''bh'' \<and> feePayer tx = Some ''A'') txs"
    by auto
  with s1 s2 have "list_all (\<lambda>tx. recentBlockhash tx = Some ''bh'' \<and> feePayer tx = Some ''A'')
        (sends_at Processed ?tr @ sends_at Finalized ?tr)"
    by (auto simp: list_all_iff)
  with f bh n1 n2 show ?thesis by (intro conjI)
qed

end
